theory Spec2Isabelle
  imports Complex_Main
begin

section \<open>History store (hooks/useHistory)\<close>

text \<open>
  The hook keeps one state object \<open>{history, index}\<close> and updates it through three
  functional updaters. Each updater is modelled as a function from the state object to
  the new state object paired with a flag telling whether the \<open>onStateChange\<close>
  callback was fired by that update (when a callback was supplied).

  The source compares snapshots with \<open>JSON.stringify(a) === JSON.stringify(b)\<close>.
  The serialiser is taken as a parameter \<open>stringify\<close>, and the guard of the store is
  the equality of two serialisations. That is not deep equality of the values:
  \<open>JSON.stringify\<close> writes the keys of an object in insertion order, so two objects
  with the same properties in another order serialise differently, and it writes both
  \<open>NaN\<close> and \<open>null\<close> as \<open>null\<close>.

  The reads \<open>history[index]\<close> and the write \<open>newHistory[index] = newState\<close> are
  in range exactly when \<open>index < history.length\<close>; this is the predicate
  \<open>index_in_range\<close>, which holds initially and is kept by every updater
  (lemmas \<open>useHistory_in_range\<close>, \<open>setState_in_range\<close>, \<open>undo_in_range\<close>,
  \<open>redo_in_range\<close>).
\<close>

record 'a HistoryState =
  history :: "'a list"
  index :: nat

datatype 'a Action = Value 'a | Updater "'a \<Rightarrow> 'a"

definition useHistory :: "'a \<Rightarrow> 'a HistoryState" where
  "useHistory initialState = \<lparr>history = [initialState], index = 0\<rparr>"

definition index_in_range :: "'a HistoryState \<Rightarrow> bool" where
  "index_in_range currentState \<longleftrightarrow> index currentState < length (history currentState)"

text \<open>\<open>typeof action === 'function' ? action(prev) : action\<close>\<close>

definition resolve :: "'a Action \<Rightarrow> 'a \<Rightarrow> 'a" where
  "resolve action prevState = (case action of Updater f \<Rightarrow> f prevState | Value v \<Rightarrow> v)"

definition setState ::
  "('a \<Rightarrow> string) \<Rightarrow> 'a Action \<Rightarrow> bool option \<Rightarrow> 'a HistoryState \<Rightarrow> 'a HistoryState \<times> bool"
where
  "setState stringify action options currentState =
     (let commit = (case options of None \<Rightarrow> True | Some c \<Rightarrow> c);
          currentHistoryState = history currentState ! index currentState;
          newState = resolve action currentHistoryState
      in if stringify newState = stringify currentHistoryState then (currentState, False)
         else if commit then
           (let newHistory = take (index currentState + 1) (history currentState) @ [newState]
            in (\<lparr>history = newHistory, index = length newHistory - 1\<rparr>, True))
         else
           (let newHistory = (history currentState)[index currentState := newState]
            in (\<lparr>history = newHistory, index = index currentState\<rparr>, True)))"

definition undo :: "'a HistoryState \<Rightarrow> 'a HistoryState \<times> bool" where
  "undo currentState =
     (if index currentState > 0
      then (let newIndex = index currentState - 1 in (currentState\<lparr>index := newIndex\<rparr>, True))
      else (currentState, False))"

definition redo :: "'a HistoryState \<Rightarrow> 'a HistoryState \<times> bool" where
  "redo currentState =
     (if int (index currentState) < int (length (history currentState)) - 1
      then (let newIndex = index currentState + 1 in (currentState\<lparr>index := newIndex\<rparr>, True))
      else (currentState, False))"

text \<open>The values the hook returns: \<open>state\<close>, \<open>canUndo\<close> and \<open>canRedo\<close>.\<close>

definition state :: "'a HistoryState \<Rightarrow> 'a" where
  "state s = history s ! index s"

definition canUndo :: "'a HistoryState \<Rightarrow> bool" where
  "canUndo s \<longleftrightarrow> index s > 0"

definition canRedo :: "'a HistoryState \<Rightarrow> bool" where
  "canRedo s \<longleftrightarrow> int (index s) < int (length (history s)) - 1"

text \<open>A call of the hook's interface, and a sequence of calls run from a state.\<close>

datatype 'a HistoryCall = SetState "'a Action" "bool option" | Undo | Redo

fun call :: "('a \<Rightarrow> string) \<Rightarrow> 'a HistoryCall \<Rightarrow> 'a HistoryState \<Rightarrow> 'a HistoryState" where
  "call stringify (SetState action options) s = fst (setState stringify action options s)"
| "call stringify Undo s = fst (undo s)"
| "call stringify Redo s = fst (redo s)"

fun calls :: "('a \<Rightarrow> string) \<Rightarrow> 'a HistoryCall list \<Rightarrow> 'a HistoryState \<Rightarrow> 'a HistoryState" where
  "calls stringify [] s = s"
| "calls stringify (c # cs) s = calls stringify cs (call stringify c s)"

fun commits :: "'a HistoryCall \<Rightarrow> bool" where
  "commits (SetState action options) = (options \<noteq> Some False)"
| "commits Undo = True"
| "commits Redo = True"

text \<open>\<open>setState(x, {commit: true}); undo(); redo()\<close>\<close>

definition roundtrip :: "('a \<Rightarrow> string) \<Rightarrow> 'a \<Rightarrow> 'a HistoryState \<Rightarrow> 'a HistoryState" where
  "roundtrip stringify x s =
     fst (redo (fst (undo (fst (setState stringify (Value x) (Some True) s)))))"

text \<open>No two adjacent snapshots of a history list have the same serialisation.\<close>

definition adjacent_distinct :: "('a \<Rightarrow> string) \<Rightarrow> 'a list \<Rightarrow> bool" where
  "adjacent_distinct stringify xs \<longleftrightarrow> distinct_adj (map stringify xs)"

text \<open>\<open>JSON.stringify\<close> on booleans, for histories of type \<open>useHistory<boolean>\<close>.\<close>

definition stringify_boolean :: "bool \<Rightarrow> string" where
  "stringify_boolean b = (if b then ''true'' else ''false'')"

text \<open>
  Objects with boolean properties, as the list of their keys and values in insertion
  order, for histories of type \<open>useHistory<{[key: string]: boolean}>\<close>.
  \<open>JSON.stringify\<close> writes the properties in that order (the keys used here need no
  escaping); two such objects are deep-equal when they have the same keys with the
  same values, in whatever order.
\<close>

type_synonym JsObject = "(string \<times> bool) list"

definition stringify_property :: "string \<times> bool \<Rightarrow> string" where
  "stringify_property kv = [CHR 0x22] @ fst kv @ [CHR 0x22] @ '':'' @ stringify_boolean (snd kv)"

fun join_comma :: "string list \<Rightarrow> string" where
  "join_comma [] = []"
| "join_comma [t] = t"
| "join_comma (t # u # ts) = t @ '','' @ join_comma (u # ts)"

definition stringify_object :: "JsObject \<Rightarrow> string" where
  "stringify_object obj = ''{'' @ join_comma (map stringify_property obj) @ ''}''"

definition deep_equal :: "JsObject \<Rightarrow> JsObject \<Rightarrow> bool" where
  "deep_equal a b \<longleftrightarrow> distinct (map fst a) \<and> distinct (map fst b) \<and> set a = set b"

section \<open>Data model (types.ts)\<close>

text \<open>
  JavaScript numbers are modelled as real numbers: coordinates, sizes and angles are the
  real values the spec's data model names, and rounding, \<open>NaN\<close> and the infinities
  of IEEE arithmetic are outside the model. Several interfaces of the source share the
  field names \<open>x\<close>, \<open>y\<close>, \<open>width\<close>, \<open>height\<close>, \<open>id\<close> and \<open>rotation\<close>; each
  record prefixes them with the name of its interface.
\<close>

record Point =
  point_x :: real
  point_y :: real

text \<open>\<open>SelectionRect\<close> and the anonymous box type \<open>{x, y, width, height}\<close>.\<close>

record Box =
  box_x :: real
  box_y :: real
  box_width :: real
  box_height :: real

type_synonym SelectionRect = Box

record ImageItem =
  image_id :: string
  image_x :: real
  image_y :: real
  image_rotation :: real
  image_width :: real
  image_height :: real
  image_src :: string
  image_thumbnailSrc :: "string option"
  image_mimeType :: string
  image_prompt :: string

record VideoItem =
  video_id :: string
  video_x :: real
  video_y :: real
  video_rotation :: real
  video_width :: real
  video_height :: real
  video_src :: string
  video_mimeType :: string
  video_prompt :: string

record TextItem =
  text_id :: string
  text_x :: real
  text_y :: real
  text_rotation :: real
  text_width :: real
  text_height :: real
  text_text :: string
  text_color :: string
  text_fontSize :: real

record DrawingItem =
  drawing_id :: string
  drawing_points :: "Point list"
  drawing_color :: string
  drawing_strokeWidth :: real
  drawing_opacity :: real
  drawing_rotation :: real

datatype CanvasItem = Image ImageItem | Text TextItem | Drawing DrawingItem | Video VideoItem

text \<open>The fields every variant has: \<open>item.id\<close> and \<open>item.rotation\<close>.\<close>

fun item_id :: "CanvasItem \<Rightarrow> string" where
  "item_id (Image i) = image_id i"
| "item_id (Text t) = text_id t"
| "item_id (Drawing d) = drawing_id d"
| "item_id (Video v) = video_id v"

fun item_rotation :: "CanvasItem \<Rightarrow> real" where
  "item_rotation (Image i) = image_rotation i"
| "item_rotation (Text t) = text_rotation t"
| "item_rotation (Drawing d) = drawing_rotation d"
| "item_rotation (Video v) = video_rotation v"

datatype InteractionMode =
  Mode_none | Mode_moving | Mode_selecting | Mode_drawing | Mode_resizing
  | Mode_rotating | Mode_panning | Mode_magicFill | Mode_expanding

section \<open>Geometry module (utils/geometry.ts)\<close>

text \<open>
  \<open>Math.min(...vs)\<close> and \<open>Math.max(...vs)\<close>. With no argument JavaScript returns an
  infinity, which is not a real number, and \<open>Min\<close> of the empty set is unspecified;
  every call of the source has an argument (the points of a drawing after the
  \<open>points.length === 0\<close> guard, the four corners of a box, the boxes of a selection
  after the \<open>selected.length > 0\<close> guard).
\<close>

definition Math_min :: "real list \<Rightarrow> real" where
  "Math_min vs = Min (set vs)"

definition Math_max :: "real list \<Rightarrow> real" where
  "Math_max vs = Max (set vs)"

definition rotatePoint :: "Point \<Rightarrow> Point \<Rightarrow> real \<Rightarrow> Point" where
  "rotatePoint point center angleDegrees =
     (let angleRadians = (angleDegrees * pi) / 180;
          cos' = cos angleRadians;
          sin' = sin angleRadians;
          dx = point_x point - point_x center;
          dy = point_y point - point_y center;
          newX = dx * cos' - dy * sin' + point_x center;
          newY = dx * sin' + dy * cos' + point_y center
      in \<lparr>point_x = newX, point_y = newY\<rparr>)"

definition getBoundingBox :: "CanvasItem \<Rightarrow> Box" where
  "getBoundingBox item =
     (case item of
        Drawing d \<Rightarrow>
          (if length (drawing_points d) = 0
           then \<lparr>box_x = 0, box_y = 0, box_width = 0, box_height = 0\<rparr>
           else
             (let xs = map point_x (drawing_points d);
                  ys = map point_y (drawing_points d);
                  padding = drawing_strokeWidth d / 2;
                  minX = Math_min xs - padding;
                  minY = Math_min ys - padding;
                  maxX = Math_max xs + padding;
                  maxY = Math_max ys + padding;
                  width = max (drawing_strokeWidth d) (maxX - minX);
                  height = max (drawing_strokeWidth d) (maxY - minY)
              in \<lparr>box_x = minX, box_y = minY, box_width = width, box_height = height\<rparr>))
      | Image i \<Rightarrow>
          \<lparr>box_x = image_x i, box_y = image_y i,
           box_width = image_width i, box_height = image_height i\<rparr>
      | Video v \<Rightarrow>
          \<lparr>box_x = video_x v, box_y = video_y v,
           box_width = video_width v, box_height = video_height v\<rparr>
      | Text t \<Rightarrow>
          \<lparr>box_x = text_x t, box_y = text_y t,
           box_width = text_width t, box_height = text_height t\<rparr>)"

definition getCenter :: "Box \<Rightarrow> Point" where
  "getCenter box = \<lparr>point_x = box_x box + box_width box / 2,
                     point_y = box_y box + box_height box / 2\<rparr>"

definition getRotatedBoundingBox :: "CanvasItem \<Rightarrow> Box" where
  "getRotatedBoundingBox item =
     (let box = getBoundingBox item;
          center = getCenter box;
          corners =
            [\<lparr>point_x = box_x box, point_y = box_y box\<rparr>,
             \<lparr>point_x = box_x box + box_width box, point_y = box_y box\<rparr>,
             \<lparr>point_x = box_x box, point_y = box_y box + box_height box\<rparr>,
             \<lparr>point_x = box_x box + box_width box, point_y = box_y box + box_height box\<rparr>];
          rotatedCorners = map (\<lambda>corner. rotatePoint corner center (item_rotation item)) corners;
          xs = map point_x rotatedCorners;
          ys = map point_y rotatedCorners;
          minX = Math_min xs;
          minY = Math_min ys;
          maxX = Math_max xs;
          maxY = Math_max ys
      in \<lparr>box_x = minX, box_y = minY, box_width = maxX - minX, box_height = maxY - minY\<rparr>)"


definition isItemInSelection :: "CanvasItem \<Rightarrow> SelectionRect \<Rightarrow> bool" where
  "isItemInSelection item rect \<longleftrightarrow>
     (let itemBox = getRotatedBoundingBox item
      in box_x itemBox < box_x rect + box_width rect \<and>
         box_x itemBox + box_width itemBox > box_x rect \<and>
         box_y itemBox < box_y rect + box_height rect \<and>
         box_y itemBox + box_height itemBox > box_y rect)"

section \<open>Drawing to image conversion (utils/canvasUtils.ts)\<close>

text \<open>
  The promise returned by \<open>convertDrawingToImageItem\<close> resolves exactly once; the model
  returns the value it resolves with, \<open>None\<close> for \<open>null\<close>. The two results of the DOM
  the function depends on are parameters: \<open>hasContext\<close> tells whether
  \<open>canvas.getContext('2d')\<close> returned a context, and \<open>dataUrl\<close> is the string returned
  by \<open>canvas.toDataURL('image/png')\<close> after the stroke has been painted.
\<close>

definition convertDrawingToImageItem :: "bool \<Rightarrow> string \<Rightarrow> DrawingItem \<Rightarrow> ImageItem option" where
  "convertDrawingToImageItem hasContext dataUrl drawing =
     (let box = getBoundingBox (Drawing drawing)
      in if box_width box \<le> 0 \<or> box_height box \<le> 0 then None
         else if \<not> hasContext then None
         else Some \<lparr>image_id = ''drawing_img_'' @ drawing_id drawing,
                     image_x = box_x box,
                     image_y = box_y box,
                     image_rotation = 0,
                     image_width = box_width box,
                     image_height = box_height box,
                     image_src = dataUrl,
                     image_thumbnailSrc = None,
                     image_mimeType = ''image/png'',
                     image_prompt = ''a user-made drawing''\<rparr>)"

section \<open>Interaction engine (components/Canvas.tsx)\<close>

subsection \<open>Handles and the control box\<close>

datatype Handle =
  Handle_n | Handle_s | Handle_e | Handle_w
  | Handle_nw | Handle_ne | Handle_sw | Handle_se | Handle_rotate

text \<open>The string each handle is in the source, and \<open>handle.includes(c)\<close> for a one-character \<open>c\<close>.\<close>

fun handle_string :: "Handle \<Rightarrow> string" where
  "handle_string Handle_n = ''n''"
| "handle_string Handle_s = ''s''"
| "handle_string Handle_e = ''e''"
| "handle_string Handle_w = ''w''"
| "handle_string Handle_nw = ''nw''"
| "handle_string Handle_ne = ''ne''"
| "handle_string Handle_sw = ''sw''"
| "handle_string Handle_se = ''se''"
| "handle_string Handle_rotate = ''rotate''"

definition handle_includes :: "Handle \<Rightarrow> char \<Rightarrow> bool" where
  "handle_includes handle c \<longleftrightarrow> c \<in> set (handle_string handle)"

text \<open>
  The handles \<open>ControlBox\<close> renders, in the order of the source. A box of zero width or
  zero height renders nothing, so a gesture cannot start on a handle of such a box.
\<close>

definition ControlBox :: "Box \<Rightarrow> bool \<Rightarrow> Handle list" where
  "ControlBox box isExpansion =
     (if box_width box = 0 \<or> box_height box = 0 then []
      else [Handle_nw, Handle_ne, Handle_sw, Handle_se, Handle_n, Handle_s, Handle_w, Handle_e]
           @ (if \<not> isExpansion then [Handle_rotate] else []))"

subsection \<open>Component state, properties and events\<close>

text \<open>
  \<open>originalItemState\<close> has type \<open>any\<close> in the source and is given four shapes: the
  clicked item (moving), \<open>{box}\<close> (expanding), \<open>{center, initialRotation}\<close> (rotating)
  and \<open>{item, box, center, oppositeCorner}\<close> (resizing).
\<close>

datatype OriginalItemState =
  Original_moving CanvasItem
  | Original_expanding Box
  | Original_rotating Point real
  | Original_resizing CanvasItem Box Point Point

record CanvasState =
  interactionMode :: InteractionMode
  startPoint :: "Point option"
  currentItem :: "CanvasItem option"
  transientSelectionRect :: "SelectionRect option"
  activeHandle :: "Handle option"
  originalItemState :: "OriginalItemState option"
  expansionGhostRect :: "SelectionRect option"
  gestureDidCommit :: bool

text \<open>
  The properties and DOM values the modelled handlers read: the bounding client
  rectangle of the canvas element (\<open>None\<close> when the ref is not attached), \<open>pan\<close>,
  \<open>zoom\<close> and \<open>expansionState\<close>. The application keeps \<open>zoom\<close> positive (it starts
  at 1 and the wheel handler clamps it), so the divisions by \<open>zoom\<close> in
  \<open>getCanvasPoint\<close> have a non-zero divisor.
\<close>

record DOMRect =
  rect_left :: real
  rect_top :: real

record CanvasProps =
  canvasRect :: "DOMRect option"
  zoom :: real
  pan :: Point
  expansion_isActive :: bool
  expansion_targetItem :: "ImageItem option"

record MouseEvent =
  clientX :: real
  clientY :: real
  shiftKey :: bool

text \<open>A call \<open>setItems(updater, {commit})\<close> made by a handler.\<close>

record SetItemsCall =
  updater :: "CanvasItem list \<Rightarrow> CanvasItem list"
  commit :: bool

text \<open>
  The item collection after the calls a handler made: the store applies the updater to
  its current value (up to the structural equality of its no-op guard).
\<close>

fun applySetItems :: "SetItemsCall option \<Rightarrow> CanvasItem list \<Rightarrow> CanvasItem list" where
  "applySetItems None items = items"
| "applySetItems (Some c) items = updater c items"

definition getCanvasPoint :: "CanvasProps \<Rightarrow> MouseEvent \<Rightarrow> Point" where
  "getCanvasPoint props e =
     (case canvasRect props of
        None \<Rightarrow> \<lparr>point_x = 0, point_y = 0\<rparr>
      | Some canvasRect' \<Rightarrow>
          (let screenX = clientX e - rect_left canvasRect';
               screenY = clientY e - rect_top canvasRect'
           in \<lparr>point_x = (screenX - point_x (pan props)) / zoom props,
               point_y = (screenY - point_y (pan props)) / zoom props\<rparr>))"

subsection \<open>Hit testing\<close>








subsection \<open>Starting a gesture on a handle\<close>

datatype Thrown = TypeError

text \<open>
  \<open>itemOrBox\<close> is an item (\<open>Inl\<close>, the branch \<open>'id' in itemOrBox\<close>) or a selection
  rectangle (\<open>Inr\<close>). With the expansion mode active the source dereferences
  \<open>expansionState.targetItem!\<close>, which throws when the target is \<open>null\<close>.
\<close>

definition handleInteractionStart ::
  "CanvasProps \<Rightarrow> MouseEvent \<Rightarrow> Handle \<Rightarrow> CanvasItem + SelectionRect \<Rightarrow> CanvasState
    \<Rightarrow> Thrown + CanvasState"
where
  "handleInteractionStart props e handle itemOrBox st =
     (let st = st\<lparr>gestureDidCommit := False,
                   startPoint := Some \<lparr>point_x = clientX e, point_y = clientY e\<rparr>,
                   activeHandle := Some handle\<rparr>;
          item = (case itemOrBox of Inl i \<Rightarrow> Some i | Inr r \<Rightarrow> None)
      in if expansion_isActive props then
           (case expansion_targetItem props of
              None \<Rightarrow> Inl TypeError
            | Some target \<Rightarrow>
                (let box = getRotatedBoundingBox (Image target)
                 in Inr (st\<lparr>interactionMode := Mode_expanding,
                             originalItemState := Some (Original_expanding box),
                             expansionGhostRect := Some box\<rparr>)))
         else
           (case item of
              None \<Rightarrow> Inr st
            | Some item \<Rightarrow>
                (let st = st\<lparr>currentItem := Some item\<rparr>
                 in if handle = Handle_rotate then
                      (let box = getBoundingBox item;
                           center = getCenter box
                       in Inr (st\<lparr>interactionMode := Mode_rotating,
                                   originalItemState := Some (Original_rotating
                                     \<lparr>point_x = (point_x center * zoom props) + point_x (pan props),
                                      point_y = (point_y center * zoom props) + point_y (pan props)\<rparr>
                                     (item_rotation item))\<rparr>))
                    else
                      (let box = getBoundingBox item;
                           center = getCenter box
                       in Inr (st\<lparr>interactionMode := Mode_resizing,
                                   originalItemState := Some (Original_resizing item box center
                                     (rotatePoint
                                        \<lparr>point_x = box_x box
                                           + (if handle_includes handle CHR ''e'' then 0 else box_width box),
                                         point_y = box_y box
                                           + (if handle_includes handle CHR ''s'' then 0 else box_height box)\<rparr>
                                        center (item_rotation item)))\<rparr>)))))"

subsection \<open>Pointer move while resizing\<close>

text \<open>
  The function mapped over the previous items by the updater of the resizing branch.
  The scale factors of a drawing divide by the width and height of the box captured when
  the gesture started; \<open>ControlBox\<close> renders no handle for a box of zero width or zero
  height, so these divisors are not zero in a gesture started on a handle.
\<close>

definition resizeItem ::
  "CanvasItem \<Rightarrow> Box \<Rightarrow> Point \<Rightarrow> Point \<Rightarrow> real \<Rightarrow> real \<Rightarrow> real \<Rightarrow> real \<Rightarrow> CanvasItem \<Rightarrow> CanvasItem"
where
  "resizeItem currentItem' origBox origCenter newCenter newX newY newWidth newHeight item =
     (if item_id item \<noteq> item_id currentItem' then item
      else
        (case item of
           Image i \<Rightarrow> Image (i\<lparr>image_x := newX, image_y := newY,
                                image_width := newWidth, image_height := newHeight\<rparr>)
         | Text t \<Rightarrow> Text (t\<lparr>text_x := newX, text_y := newY,
                              text_width := newWidth, text_height := newHeight\<rparr>)
         | Video v \<Rightarrow> Video (v\<lparr>video_x := newX, video_y := newY,
                                video_width := newWidth, video_height := newHeight\<rparr>)
         | Drawing d \<Rightarrow>
             (let scaleX = newWidth / box_width origBox;
                  scaleY = newHeight / box_height origBox;
                  newPoints = map (\<lambda>p.
                    let relativeP = \<lparr>point_x = point_x p - point_x origCenter,
                                     point_y = point_y p - point_y origCenter\<rparr>;
                        scaledP = \<lparr>point_x = point_x relativeP * scaleX,
                                   point_y = point_y relativeP * scaleY\<rparr>
                    in \<lparr>point_x = point_x scaledP + point_x newCenter,
                        point_y = point_y scaledP + point_y newCenter\<rparr>) (drawing_points d)
              in Drawing (d\<lparr>drawing_points := newPoints\<rparr>))))"

text \<open>
  \<open>handleMouseMove\<close> dispatches on the interaction mode through a chain of branches;
  the branches before the resizing one all require another mode, and they are not
  modelled (\<open>Other_branch\<close>), nor is the hover highlight the handler updates first,
  which no other modelled value depends on. In the resizing mode the handler either throws (the
  destructured \<open>originalItemState\<close> does not have the resizing shape), or returns with
  the new component state and the \<open>setItems\<close> call it made, if any.

  With the aspect lock, \<open>aspectRatio\<close> divides by the height of the captured box, not zero
  in a gesture started on a handle. The test \<open>newWidth / newHeight > aspectRatio\<close> has a
  zero divisor whenever the pointer is level with the fixed corner: JavaScript then compares
  \<open>Infinity\<close> (true) when \<open>newWidth\<close> is positive and \<open>NaN\<close> (false) when it is zero.
\<close>

datatype MoveResult =
  Other_branch
  | Throws Thrown
  | Returns CanvasState "SetItemsCall option"

definition handleMouseMove :: "CanvasProps \<Rightarrow> MouseEvent \<Rightarrow> CanvasState \<Rightarrow> MoveResult" where
  "handleMouseMove props e st =
     (if interactionMode st \<noteq> Mode_resizing then Other_branch
      else
        (case (currentItem st, startPoint st, activeHandle st) of
           (Some currentItem', Some startPoint', Some activeHandle') \<Rightarrow>
             (case originalItemState st of
                Some (Original_resizing origItem origBox origCenter oppositeCorner) \<Rightarrow>
                  (let commit' = \<not> gestureDidCommit st;
                       currentMouseCanvas = getCanvasPoint props e;
                       vec = \<lparr>point_x = point_x currentMouseCanvas - point_x oppositeCorner,
                              point_y = point_y currentMouseCanvas - point_y oppositeCorner\<rparr>;
                       unrotatedVec = rotatePoint vec \<lparr>point_x = 0, point_y = 0\<rparr>
                                        (- item_rotation origItem);
                       newWidth = \<bar>point_x unrotatedVec\<bar>;
                       newHeight = \<bar>point_y unrotatedVec\<bar>;
                       (newWidth, newHeight) =
                         (if shiftKey e \<and> (case origItem of Image i \<Rightarrow> True | Video v \<Rightarrow> True
                                              | Text t \<Rightarrow> False | Drawing d \<Rightarrow> False)
                          then
                            (let aspectRatio = box_width origBox / box_height origBox
                             in if (if newHeight = 0 then 0 < newWidth
                                    else newWidth / newHeight > aspectRatio)
                                then (newWidth, newWidth / aspectRatio)
                                else (newHeight * aspectRatio, newHeight))
                          else (newWidth, newHeight))
                   in if newWidth < 10 \<or> newHeight < 10 then Returns st None
                      else
                        (let newCenter =
                               \<lparr>point_x = (point_x oppositeCorner + point_x currentMouseCanvas) / 2,
                                point_y = (point_y oppositeCorner + point_y currentMouseCanvas) / 2\<rparr>;
                             newX = point_x newCenter - newWidth / 2;
                             newY = point_y newCenter - newHeight / 2
                         in Returns
                              (if commit' then st\<lparr>gestureDidCommit := True\<rparr> else st)
                              (Some \<lparr>updater = map (resizeItem currentItem' origBox origCenter
                                                        newCenter newX newY newWidth newHeight),
                                     commit = commit'\<rparr>)))
              | _ \<Rightarrow> Throws TypeError)
         | _ \<Rightarrow> Returns st None))"

text \<open>
  A run of pointer moves of one gesture, with the item collection of the store threaded
  through; \<open>None\<close> when a move leaves the modelled branch.
\<close>

fun mouseMoves ::
  "CanvasProps \<Rightarrow> MouseEvent list \<Rightarrow> CanvasState \<times> CanvasItem list
    \<Rightarrow> (CanvasState \<times> CanvasItem list) option"
where
  "mouseMoves props [] (st, items) = Some (st, items)"
| "mouseMoves props (e # es) (st, items) =
     (case handleMouseMove props e st of
        Returns st' c \<Rightarrow> mouseMoves props es (st', applySetItems c items)
      | _ \<Rightarrow> None)"

subsection \<open>Pointer release while selecting\<close>

text \<open>
  The call \<open>onSelectionChange(rect, items)\<close> made by \<open>handleMouseUp\<close>, if any: only the
  selecting branch makes one. \<open>(None, [])\<close> is the call \<open>onSelectionChange(null, [])\<close>
  that clears the selection.
\<close>

definition handleMouseUp_onSelectionChange ::
  "CanvasItem list \<Rightarrow> CanvasState \<Rightarrow> (SelectionRect option \<times> CanvasItem list) option"
where
  "handleMouseUp_onSelectionChange items st =
     (if interactionMode st = Mode_selecting then
        (case transientSelectionRect st of
           None \<Rightarrow> None
         | Some rect \<Rightarrow>
             (let selected = filter (\<lambda>item. isItemInSelection item rect) items
              in if length selected > 0 \<and> box_width rect > 5 \<and> box_height rect > 5 then
                   (let boxes = map getRotatedBoundingBox selected;
                        minX = Math_min (map box_x boxes);
                        minY = Math_min (map box_y boxes);
                        maxX = Math_max (map (\<lambda>b. box_x b + box_width b) boxes);
                        maxY = Math_max (map (\<lambda>b. box_y b + box_height b) boxes);
                        encompassingRect = \<lparr>box_x = minX, box_y = minY,
                                            box_width = maxX - minX, box_height = maxY - minY\<rparr>
                    in Some (Some encompassingRect, selected))
                 else Some (None, [])))
      else None)"

text \<open>
  Two boxes overlap, in the words of the specification, when no axis separates them:
  neither lies entirely to the left of, to the right of, above or below the other
  (boxes that only touch are apart).
\<close>

definition overlaps :: "Box \<Rightarrow> Box \<Rightarrow> bool" where
  "overlaps a b \<longleftrightarrow>
     \<not> (box_x a + box_width a \<le> box_x b \<or> box_x b + box_width b \<le> box_x a \<or>
        box_y a + box_height a \<le> box_y b \<or> box_y b + box_height b \<le> box_y a)"

text \<open>
  The axis-aligned min/max rectangle of a list of boxes: its left edge is the least left
  edge and its top edge the least top edge of the boxes, its width is the greatest right
  edge \<open>x + width\<close> of the boxes minus its left edge, and its height the greatest bottom
  edge \<open>y + height\<close> minus its top edge.
\<close>

definition min_max_rect :: "Box \<Rightarrow> Box list \<Rightarrow> bool" where
  "min_max_rect r boxes \<longleftrightarrow>
     (\<exists>b \<in> set boxes. box_x r = box_x b) \<and>
     (\<forall>b \<in> set boxes. box_x r \<le> box_x b) \<and>
     (\<exists>b \<in> set boxes. box_y r = box_y b) \<and>
     (\<forall>b \<in> set boxes. box_y r \<le> box_y b) \<and>
     (\<exists>b \<in> set boxes. box_width r = (box_x b + box_width b) - box_x r \<and>
        (\<forall>c \<in> set boxes. box_x c + box_width c \<le> box_x b + box_width b)) \<and>
     (\<exists>b \<in> set boxes. box_height r = (box_y b + box_height b) - box_y r \<and>
        (\<forall>c \<in> set boxes. box_y c + box_height c \<le> box_y b + box_height b))"

section \<open>Gestures and example inputs\<close>

text \<open>
  A resize gesture on one item: the pointer goes down on a handle of the item's control
  box while no gesture is active, then moves. The result is the item collection of the
  store after the moves, here the single item.
\<close>

definition idle :: CanvasState where
  "idle = \<lparr>interactionMode = Mode_none, startPoint = None, currentItem = None,
           transientSelectionRect = None, activeHandle = None, originalItemState = None,
           expansionGhostRect = None, gestureDidCommit = False\<rparr>"

definition resize_gesture ::
  "CanvasProps \<Rightarrow> MouseEvent \<Rightarrow> Handle \<Rightarrow> CanvasItem \<Rightarrow> MouseEvent list
    \<Rightarrow> CanvasItem list option"
where
  "resize_gesture props down handle item moves =
     (case handleInteractionStart props down handle (Inl item) idle of
        Inl thrown \<Rightarrow> None
      | Inr st \<Rightarrow> map_option snd (mouseMoves props moves (st, [item])))"

text \<open>The state of the component when a marquee \<open>rect\<close> is being dragged.\<close>

definition selecting :: "SelectionRect \<Rightarrow> CanvasState" where
  "selecting rect = idle\<lparr>interactionMode := Mode_selecting,
                          transientSelectionRect := Some rect\<rparr>"

text \<open>
  A canvas whose element sits at the origin of the viewport, unpanned and at zoom 1, so
  that client coordinates are canvas coordinates; a pointer event without modifier keys.
\<close>

definition plain_view :: CanvasProps where
  "plain_view = \<lparr>canvasRect = Some \<lparr>rect_left = 0, rect_top = 0\<rparr>, zoom = 1,
                 pan = \<lparr>point_x = 0, point_y = 0\<rparr>,
                 expansion_isActive = False, expansion_targetItem = None\<rparr>"

definition pointer :: "real \<Rightarrow> real \<Rightarrow> MouseEvent" where
  "pointer x y = \<lparr>clientX = x, clientY = y, shiftKey = False\<rparr>"

definition picture :: "string \<Rightarrow> real \<Rightarrow> real \<Rightarrow> real \<Rightarrow> real \<Rightarrow> real \<Rightarrow> ImageItem" where
  "picture name x y width height rotation =
     \<lparr>image_id = name, image_x = x, image_y = y, image_rotation = rotation,
      image_width = width, image_height = height, image_src = ''blob:picture'',
      image_thumbnailSrc = None, image_mimeType = ''image/png'', image_prompt = name\<rparr>"

text \<open>A drawing of one point, and a diagonal stroke of two points.\<close>

definition dot :: DrawingItem where
  "dot = \<lparr>drawing_id = ''dot'', drawing_points = [\<lparr>point_x = 0, point_y = 0\<rparr>],
          drawing_color = ''#000000'', drawing_strokeWidth = 5, drawing_opacity = 1,
          drawing_rotation = 0\<rparr>"

definition stroke :: DrawingItem where
  "stroke = \<lparr>drawing_id = ''stroke'',
             drawing_points = [\<lparr>point_x = 0, point_y = 0\<rparr>, \<lparr>point_x = 98, point_y = 98\<rparr>],
             drawing_color = ''#000000'', drawing_strokeWidth = 2, drawing_opacity = 1,
             drawing_rotation = 0\<rparr>"

section \<open>Properties of the history store\<close>

lemma resolve_Value [simp]: "resolve (Value v) prevState = v"
  by (simp add: resolve_def)

lemma resolve_Updater [simp]: "resolve (Updater f) prevState = f prevState"
  by (simp add: resolve_def)

subsection \<open>The index stays in range\<close>

lemma useHistory_in_range: "index_in_range (useHistory initialState)"
  by (simp add: useHistory_def index_in_range_def)

lemma setState_in_range:
  "index_in_range s \<Longrightarrow> index_in_range (fst (setState stringify action options s))"
  by (auto simp: setState_def index_in_range_def Let_def split: option.splits)

lemma undo_in_range: "index_in_range s \<Longrightarrow> index_in_range (fst (undo s))"
  by (auto simp: undo_def index_in_range_def Let_def)

lemma redo_in_range: "index_in_range s \<Longrightarrow> index_in_range (fst (redo s))"
  by (auto simp: redo_def index_in_range_def Let_def)

lemma call_in_range: "index_in_range s \<Longrightarrow> index_in_range (call stringify c s)"
  by (cases c) (simp_all add: setState_in_range undo_in_range redo_in_range)

lemma calls_in_range: "index_in_range s \<Longrightarrow> index_in_range (calls stringify cs s)"
  by (induction cs arbitrary: s) (simp_all add: call_in_range)

subsection \<open>Adjacent snapshots\<close>

lemma setState_commit_adjacent:
  assumes "index_in_range s" "adjacent_distinct stringify (history s)" "options \<noteq> Some False"
  shows "adjacent_distinct stringify (history (fst (setState stringify action options s)))"
proof -
  let ?i = "index s" and ?h = "history s"
  have kept: "distinct_adj (map stringify (take (?i + 1) ?h))"
    using assms(2) unfolding adjacent_distinct_def
    by (metis append_take_drop_id distinct_adj_appendD1 map_append)
  have at_end: "last (take (?i + 1) ?h) = ?h ! ?i" "take (?i + 1) ?h \<noteq> []"
    using assms(1) by (auto simp: index_in_range_def take_Suc_conv_app_nth)
  show ?thesis
    using assms kept at_end
    by (auto simp: setState_def Let_def adjacent_distinct_def distinct_adj_append_iff last_map
        simp del: take_Suc_conv_app_nth split: option.splits)
qed

lemma call_commit_adjacent:
  assumes "index_in_range s" "adjacent_distinct stringify (history s)" "commits c"
  shows "adjacent_distinct stringify (history (call stringify c s))"
  using assms by (cases c) (auto simp: setState_commit_adjacent undo_def redo_def Let_def)

lemma calls_commit_adjacent:
  assumes "index_in_range s" "adjacent_distinct stringify (history s)" "\<forall>c\<in>set cs. commits c"
  shows "adjacent_distinct stringify (history (calls stringify cs s))"
  using assms by (induction cs arbitrary: s) (auto simp: call_commit_adjacent call_in_range)

text \<open>
  C2, as stated, fails. In a history of booleans, committing \<open>false\<close> after the initial
  \<open>true\<close> and then overwriting the current entry with \<open>true\<close> by a transient update
  (\<open>commit: false\<close>) leaves the history \<open>[true, true]\<close>: the no-op guard compares the new
  value with the current entry only, not with its neighbours.
\<close>

theorem transient_update_adjacent_equal:
  "\<not> adjacent_distinct stringify_boolean
        (history (calls stringify_boolean
           [SetState (Value False) (Some True), SetState (Value True) (Some False)]
           (useHistory True)))"
  by (simp add: adjacent_distinct_def setState_def useHistory_def stringify_boolean_def Let_def)

text \<open>
  C2, amended: after every sequence of committing \<open>setState\<close> calls (\<open>commit\<close> true or
  left to its default), \<open>undo\<close> and \<open>redo\<close> calls starting from the initial singleton
  history, no two adjacent entries of the history list have the same
  \<open>JSON.stringify\<close> serialisation.
\<close>

theorem committed_history_adjacent_distinct:
  assumes "\<forall>c\<in>set cs. commits c"
  shows "adjacent_distinct stringify (history (calls stringify cs (useHistory initialState)))"
proof (rule calls_commit_adjacent)
  show "index_in_range (useHistory initialState)"
    by (rule useHistory_in_range)
  show "adjacent_distinct stringify (history (useHistory initialState))"
    by (simp add: useHistory_def adjacent_distinct_def)
  show "\<forall>c\<in>set cs. commits c"
    by (rule assms)
qed

theorem committed_history_adjacent_distinct_witness:
  "list_all commits [SetState (Value False) None, Undo, Redo, SetState (Value True) (Some True)]
   \<and> adjacent_distinct stringify_boolean
        (history (calls stringify_boolean
           [SetState (Value False) None, Undo, Redo, SetState (Value True) (Some True)]
           (useHistory True)))
   \<and> history (calls stringify_boolean
        [SetState (Value False) None, Undo, Redo, SetState (Value True) (Some True)]
        (useHistory True)) = [True, False, True]"
proof -
  have h: "\<forall>c\<in>set [SetState (Value False) None, Undo, Redo, SetState (Value True) (Some True)].
             commits c"
    by simp
  have "history (calls stringify_boolean
          [SetState (Value False) None, Undo, Redo, SetState (Value True) (Some True)]
          (useHistory True)) = [True, False, True]"
    by (simp add: setState_def undo_def redo_def useHistory_def stringify_boolean_def Let_def)
  then show ?thesis
    using h committed_history_adjacent_distinct [OF h, of stringify_boolean True] by simp
qed

subsection \<open>Round trip\<close>

lemma roundtrip_changed:
  assumes "index_in_range s" and "stringify x \<noteq> stringify (state s)"
  shows "state (roundtrip stringify x s) = x"
  using assms
  by (auto simp: roundtrip_def setState_def undo_def redo_def state_def Let_def
      index_in_range_def nth_append min_def)

lemma roundtrip_unchanged:
  assumes "index_in_range s" and "stringify x = stringify (state s)"
    and "\<not> (index s = 0 \<and> length (history s) > 1)"
  shows "state (roundtrip stringify x s) = state s"
  using assms
  by (auto simp: roundtrip_def setState_def undo_def redo_def state_def Let_def
      index_in_range_def)

text \<open>
  C4, as stated, fails. In the history \<open>[true, false]\<close> with index 0 (reached by
  committing \<open>false\<close> and undoing), \<open>setState(true, {commit: true})\<close> is stopped by the
  no-op guard, \<open>undo\<close> does nothing at index 0, and \<open>redo\<close> moves to the old redo entry:
  the current value is \<open>false\<close>, not \<open>true\<close>.
\<close>

theorem roundtrip_redo_tail_counterexample:
  "state (roundtrip stringify_boolean True \<lparr>history = [True, False], index = 0\<rparr>) \<noteq> True"
  by (simp add: roundtrip_def setState_def undo_def redo_def state_def stringify_boolean_def
      Let_def)

text \<open>
  C4, amended: for every history state and every value \<open>x\<close>, performing
  \<open>setState(x, {commit: true})\<close>, \<open>undo()\<close>, \<open>redo()\<close> leaves a current value with the
  same \<open>JSON.stringify\<close> serialisation as \<open>x\<close>, and \<open>x\<close> itself when the serialisation
  of \<open>x\<close> differed from that of the current value before; the one exception is a value
  \<open>x\<close> with the serialisation of the current value while the index is 0 and redo
  entries exist.
\<close>

theorem roundtrip_yields_x:
  assumes "index_in_range s"
    and "\<not> (stringify x = stringify (state s) \<and> index s = 0 \<and> length (history s) > 1)"
  shows "stringify (state (roundtrip stringify x s)) = stringify x
         \<and> (stringify x \<noteq> stringify (state s) \<longrightarrow> state (roundtrip stringify x s) = x)"
proof (cases "stringify x = stringify (state s)")
  case True
  with assms have "state (roundtrip stringify x s) = state s"
    by (intro roundtrip_unchanged) auto
  with True show ?thesis by simp
next
  case False
  with assms(1) have "state (roundtrip stringify x s) = x"
    by (rule roundtrip_changed)
  with False show ?thesis by simp
qed

theorem roundtrip_yields_x_witness:
  "index_in_range \<lparr>history = [True, False], index = 1\<rparr>
   \<and> \<not> (stringify_boolean True = stringify_boolean (state \<lparr>history = [True, False], index = 1\<rparr>)
        \<and> index \<lparr>history = [True, False], index = 1\<rparr> = 0
        \<and> length (history \<lparr>history = [True, False], index = 1\<rparr>) > 1)
   \<and> state (roundtrip stringify_boolean True \<lparr>history = [True, False], index = 1\<rparr>) = True
   \<and> history (roundtrip stringify_boolean True \<lparr>history = [True, False], index = 1\<rparr>)
       = [True, False, True]"
proof -
  let ?s = "\<lparr>history = [True, False], index = 1\<rparr>"
  have h1: "index_in_range ?s"
    by (simp add: index_in_range_def)
  have h2: "\<not> (stringify_boolean True = stringify_boolean (state ?s) \<and> index ?s = 0
              \<and> length (history ?s) > 1)"
    by simp
  have h3: "stringify_boolean True \<noteq> stringify_boolean (state ?s)"
    by (simp add: stringify_boolean_def state_def)
  have "history (roundtrip stringify_boolean True ?s) = [True, False, True]"
    by (simp add: roundtrip_def setState_def undo_def redo_def state_def stringify_boolean_def
        Let_def)
  then show ?thesis
    using h1 h2 h3 roundtrip_yields_x [OF h1 h2] by simp
qed

subsection \<open>Transient updates\<close>

text \<open>
  C5: for every history state, a \<open>setState\<close> with \<open>commit: false\<close> overwrites the entry at
  the current index in place (or changes nothing, when the new value serialises like
  the current one) without changing the index, so a \<open>commit: false\<close> update
  followed by another one does not change the length of the history.
\<close>

theorem transient_update_in_place:
  assumes "index_in_range s"
  shows "(let newState = resolve action (state s);
              s' = fst (setState stringify action (Some False) s)
          in index s' = index s
           \<and> length (history s') = length (history s)
           \<and> history s' = (if stringify newState = stringify (state s) then history s
                            else (history s)[index s := newState])
           \<and> stringify (state s') = stringify newState
           \<and> length (history (fst (setState stringify action' (Some False) s')))
               = length (history s))"
  using assms by (auto simp: setState_def state_def Let_def index_in_range_def)

theorem transient_update_in_place_witness:
  "index_in_range \<lparr>history = [True, False], index = 1\<rparr>
   \<and> fst (setState stringify_boolean (Value True) (Some False) \<lparr>history = [True, False], index = 1\<rparr>)
       = \<lparr>history = [True, True], index = 1\<rparr>
   \<and> length (history (fst (setState stringify_boolean (Updater Not) (Some False)
        (fst (setState stringify_boolean (Value True) (Some False)
           \<lparr>history = [True, False], index = 1\<rparr>))))) = 2"
proof -
  let ?s = "\<lparr>history = [True, False], index = 1\<rparr>"
  have h: "index_in_range ?s"
    by (simp add: index_in_range_def)
  have step: "fst (setState stringify_boolean (Value True) (Some False) ?s)
          = \<lparr>history = [True, True], index = 1\<rparr>"
    by (simp add: setState_def stringify_boolean_def Let_def)
  have "length (history (fst (setState stringify_boolean (Updater Not) (Some False)
          (fst (setState stringify_boolean (Value True) (Some False) ?s)))))
        = length (history ?s)"
    using transient_update_in_place [OF h, of "Value True" stringify_boolean "Updater Not"]
    unfolding Let_def by blast
  then have "length (history (fst (setState stringify_boolean (Updater Not) (Some False)
          (fst (setState stringify_boolean (Value True) (Some False) ?s))))) = 2"
    by simp
  with h step show ?thesis
    by blast
qed

subsection \<open>No-op guard\<close>

text \<open>
  C6, as stated, fails. The guard compares serialisations, and \<open>JSON.stringify\<close> keeps
  the order of the keys: in a history whose current value is \<open>{a: true, b: false}\<close>,
  \<open>setState({b: false, a: true})\<close> passes a deep-equal value, yet a new entry is
  appended, \<open>canUndo\<close> turns true and the change notification fires.
\<close>

theorem reordered_keys_not_a_noop:
  "deep_equal [(''b'', False), (''a'', True)] (state (useHistory [(''a'', True), (''b'', False)]))
   \<and> setState stringify_object (Value [(''b'', False), (''a'', True)]) None
        (useHistory [(''a'', True), (''b'', False)])
       = (\<lparr>history = [[(''a'', True), (''b'', False)], [(''b'', False), (''a'', True)]],
           index = 1\<rparr>, True)
   \<and> \<not> canUndo (useHistory [(''a'', True), (''b'', False)])
   \<and> canUndo (fst (setState stringify_object (Value [(''b'', False), (''a'', True)]) None
        (useHistory [(''a'', True), (''b'', False)])))"
proof -
  have d: "deep_equal [(''b'', False), (''a'', True)]
             (state (useHistory [(''a'', True), (''b'', False)]))"
    by (auto simp: deep_equal_def state_def useHistory_def)
  have s: "setState stringify_object (Value [(''b'', False), (''a'', True)]) None
        (useHistory [(''a'', True), (''b'', False)])
       = (\<lparr>history = [[(''a'', True), (''b'', False)], [(''b'', False), (''a'', True)]],
           index = 1\<rparr>, True)"
    by (simp add: setState_def useHistory_def stringify_object_def stringify_property_def
        stringify_boolean_def resolve_def Let_def)
  have u: "\<not> canUndo (useHistory [(''a'', True), (''b'', False)])"
    by (simp add: canUndo_def useHistory_def)
  from d s u show ?thesis
    by (simp add: canUndo_def)
qed

text \<open>
  C6, amended: for every history state, calling \<open>setState\<close> with a value whose
  \<open>JSON.stringify\<close> serialisation equals that of the current value, with either commit
  option or none, changes nothing: the state object (history list and index) is returned
  as it is, \<open>canUndo\<close> and \<open>canRedo\<close> are unchanged, and the change notification does
  not fire.
\<close>

theorem setState_noop_guard:
  assumes "stringify (resolve action (state s)) = stringify (state s)"
  shows "(let r = setState stringify action options s
          in fst r = s
           \<and> history (fst r) = history s
           \<and> index (fst r) = index s
           \<and> canUndo (fst r) = canUndo s
           \<and> canRedo (fst r) = canRedo s
           \<and> \<not> snd r)"
  using assms by (simp add: setState_def state_def Let_def)

theorem setState_noop_guard_witness:
  "stringify_boolean (resolve (Value False) (state \<lparr>history = [True, False, True], index = 1\<rparr>))
     = stringify_boolean (state \<lparr>history = [True, False, True], index = 1\<rparr>)
   \<and> setState stringify_boolean (Value False) (Some False) \<lparr>history = [True, False, True], index = 1\<rparr>
       = (\<lparr>history = [True, False, True], index = 1\<rparr>, False)
   \<and> canUndo \<lparr>history = [True, False, True], index = 1\<rparr>
   \<and> canRedo \<lparr>history = [True, False, True], index = 1\<rparr>"
proof -
  let ?s = "\<lparr>history = [True, False, True], index = 1\<rparr>"
  have h: "stringify_boolean (resolve (Value False) (state ?s)) = stringify_boolean (state ?s)"
    by (simp add: state_def)
  have c: "canUndo ?s" "canRedo ?s"
    by (simp_all add: canUndo_def canRedo_def)
  show ?thesis
    using h c setState_noop_guard [OF h, of "Some False"]
    by (simp add: Let_def prod_eq_iff)
qed

section \<open>Properties of the geometry module\<close>

lemma rotatePoint_zero [simp]: "rotatePoint point center 0 = point"
  by (simp add: rotatePoint_def)

lemma getBoundingBox_single_point:
  assumes "drawing_points d = [p]"
  shows "getBoundingBox (Drawing d) =
           \<lparr>box_x = point_x p - drawing_strokeWidth d / 2,
            box_y = point_y p - drawing_strokeWidth d / 2,
            box_width = drawing_strokeWidth d,
            box_height = drawing_strokeWidth d\<rparr>"
  using assms by (simp add: getBoundingBox_def Math_min_def Math_max_def Let_def)

lemma convertDrawingToImageItem_single_point:
  assumes "drawing_points d = [p]" and "0 < drawing_strokeWidth d"
  shows "convertDrawingToImageItem True dataUrl d \<noteq> None"
  using assms
  by (simp add: convertDrawingToImageItem_def getBoundingBox_single_point Let_def)

text \<open>
  C1 holds for \<open>getBoundingBox\<close> (lemma \<open>getBoundingBox_single_point\<close>) and fails for the
  conversion: the box of a one-point drawing with a positive stroke width has positive
  width and height, so the guard \<open>box.width <= 0 || box.height <= 0\<close> of
  \<open>convertDrawingToImageItem\<close> does not fire, and with a 2D context available the
  drawing is rasterised and an image item is returned. Evaluated at the dot of stroke
  width 5 at the origin:
\<close>

theorem single_point_drawing_is_converted:
  "getBoundingBox (Drawing dot)
     = \<lparr>box_x = - 5 / 2, box_y = - 5 / 2, box_width = 5, box_height = 5\<rparr>
   \<and> convertDrawingToImageItem True ''data:image/png;base64,'' dot
     = Some \<lparr>image_id = ''drawing_img_dot'', image_x = - 5 / 2, image_y = - 5 / 2,
             image_rotation = 0, image_width = 5, image_height = 5,
             image_src = ''data:image/png;base64,'', image_thumbnailSrc = None,
             image_mimeType = ''image/png'', image_prompt = ''a user-made drawing''\<rparr>"
  by (simp add: convertDrawingToImageItem_def getBoundingBox_def Math_min_def Math_max_def
      Let_def dot_def)

text \<open>
  C10: for every drawing whose points list is empty, \<open>getBoundingBox\<close> returns the zero
  box, not a box of the stroke width, and so does \<open>getRotatedBoundingBox\<close>, whatever the
  rotation and the stroke width.
\<close>

theorem empty_drawing_zero_box:
  "getBoundingBox (Drawing (d\<lparr>drawing_points := []\<rparr>))
     = \<lparr>box_x = 0, box_y = 0, box_width = 0, box_height = 0\<rparr>
   \<and> getRotatedBoundingBox (Drawing (d\<lparr>drawing_points := []\<rparr>))
     = \<lparr>box_x = 0, box_y = 0, box_width = 0, box_height = 0\<rparr>"
  by (simp add: getRotatedBoundingBox_def getBoundingBox_def getCenter_def rotatePoint_def
      Math_min_def Math_max_def Let_def)

section \<open>Properties of the interaction engine\<close>

subsection \<open>Hit testing\<close>










subsection \<open>Marquee release\<close>

lemma Math_min_le: "b \<in> set boxes \<Longrightarrow> Math_min (map f boxes) \<le> f b"
  by (simp add: Math_min_def)

lemma Math_max_ge: "b \<in> set boxes \<Longrightarrow> f b \<le> Math_max (map f boxes)"
  by (simp add: Math_max_def)

lemma Math_min_attained:
  assumes "boxes \<noteq> []"
  shows "\<exists>b\<in>set boxes. f b = Math_min (map f boxes)"
proof -
  from assms have "Min (set (map f boxes)) \<in> set (map f boxes)"
    by (intro Min_in) auto
  then show ?thesis
    by (auto simp: Math_min_def)
qed

lemma Math_max_attained:
  assumes "boxes \<noteq> []"
  shows "\<exists>b\<in>set boxes. f b = Math_max (map f boxes)"
proof -
  from assms have "Max (set (map f boxes)) \<in> set (map f boxes)"
    by (intro Max_in) auto
  then show ?thesis
    by (auto simp: Math_max_def)
qed

lemma encompassingRect_min_max:
  assumes "boxes \<noteq> []"
  shows "min_max_rect
           \<lparr>box_x = Math_min (map box_x boxes),
            box_y = Math_min (map box_y boxes),
            box_width = Math_max (map (\<lambda>b. box_x b + box_width b) boxes)
                          - Math_min (map box_x boxes),
            box_height = Math_max (map (\<lambda>b. box_y b + box_height b) boxes)
                           - Math_min (map box_y boxes)\<rparr>
           boxes"
proof -
  obtain bl where bl: "bl \<in> set boxes" "box_x bl = Math_min (map box_x boxes)"
    using Math_min_attained [OF assms, of box_x] by blast
  obtain bt where bt: "bt \<in> set boxes" "box_y bt = Math_min (map box_y boxes)"
    using Math_min_attained [OF assms, of box_y] by blast
  obtain br where br: "br \<in> set boxes"
    "box_x br + box_width br = Math_max (map (\<lambda>b. box_x b + box_width b) boxes)"
    using Math_max_attained [OF assms, of "\<lambda>b. box_x b + box_width b"] by blast
  obtain bb where bb: "bb \<in> set boxes"
    "box_y bb + box_height bb = Math_max (map (\<lambda>b. box_y b + box_height b) boxes)"
    using Math_max_attained [OF assms, of "\<lambda>b. box_y b + box_height b"] by blast
  have left: "\<forall>c \<in> set boxes. box_x bl \<le> box_x c"
    using Math_min_le [where f = box_x and boxes = boxes] bl(2) by simp
  have top: "\<forall>c \<in> set boxes. box_y bt \<le> box_y c"
    using Math_min_le [where f = box_y and boxes = boxes] bt(2) by simp
  have right: "\<forall>c \<in> set boxes. box_x c + box_width c \<le> box_x br + box_width br"
    using Math_max_ge [where f = "\<lambda>b. box_x b + box_width b" and boxes = boxes] br(2)
    by simp
  have bottom: "\<forall>c \<in> set boxes. box_y c + box_height c \<le> box_y bb + box_height bb"
    using Math_max_ge [where f = "\<lambda>b. box_y b + box_height b" and boxes = boxes] bb(2)
    by simp
  show ?thesis
    unfolding min_max_rect_def
  proof (intro conjI)
    show "\<exists>b\<in>set boxes. box_width \<lparr>box_x = Math_min (map box_x boxes),
            box_y = Math_min (map box_y boxes),
            box_width = Math_max (map (\<lambda>b. box_x b + box_width b) boxes)
                          - Math_min (map box_x boxes),
            box_height = Math_max (map (\<lambda>b. box_y b + box_height b) boxes)
                           - Math_min (map box_y boxes)\<rparr>
          = box_x b + box_width b - box_x \<lparr>box_x = Math_min (map box_x boxes),
            box_y = Math_min (map box_y boxes),
            box_width = Math_max (map (\<lambda>b. box_x b + box_width b) boxes)
                          - Math_min (map box_x boxes),
            box_height = Math_max (map (\<lambda>b. box_y b + box_height b) boxes)
                           - Math_min (map box_y boxes)\<rparr>
          \<and> (\<forall>c\<in>set boxes. box_x c + box_width c \<le> box_x b + box_width b)"
      using br right by (intro bexI [of _ br]) simp_all
    show "\<exists>b\<in>set boxes. box_height \<lparr>box_x = Math_min (map box_x boxes),
            box_y = Math_min (map box_y boxes),
            box_width = Math_max (map (\<lambda>b. box_x b + box_width b) boxes)
                          - Math_min (map box_x boxes),
            box_height = Math_max (map (\<lambda>b. box_y b + box_height b) boxes)
                           - Math_min (map box_y boxes)\<rparr>
          = box_y b + box_height b - box_y \<lparr>box_x = Math_min (map box_x boxes),
            box_y = Math_min (map box_y boxes),
            box_width = Math_max (map (\<lambda>b. box_x b + box_width b) boxes)
                          - Math_min (map box_x boxes),
            box_height = Math_max (map (\<lambda>b. box_y b + box_height b) boxes)
                           - Math_min (map box_y boxes)\<rparr>
          \<and> (\<forall>c\<in>set boxes. box_y c + box_height c \<le> box_y b + box_height b)"
      using bb bottom by (intro bexI [of _ bb]) simp_all
  qed (use bl(1) bl(2) [symmetric] bt(1) bt(2) [symmetric] left top in auto)
qed

lemma isItemInSelection_overlaps:
  "isItemInSelection item rect \<longleftrightarrow> overlaps (getRotatedBoundingBox item) rect"
  by (auto simp: isItemInSelection_def overlaps_def Let_def)

text \<open>
  C8: on marquee release (the mode is selecting and a marquee rectangle exists), if at
  least one item's rotated bounding box overlaps the marquee and the marquee is more than
  5 wide and more than 5 high, the reported selection is the items whose rotated bounding
  box overlaps the marquee, with the axis-aligned min/max rectangle of their rotated
  bounding boxes; otherwise the selection is cleared.
\<close>

theorem marquee_release_selection:
  assumes "interactionMode st = Mode_selecting" and "transientSelectionRect st = Some rect"
  shows "(let selected = filter (\<lambda>item. overlaps (getRotatedBoundingBox item) rect) items
          in if (\<exists>item \<in> set items. overlaps (getRotatedBoundingBox item) rect)
                \<and> box_width rect > 5 \<and> box_height rect > 5
             then \<exists>r. handleMouseUp_onSelectionChange items st = Some (Some r, selected)
                      \<and> min_max_rect r (map getRotatedBoundingBox selected)
             else handleMouseUp_onSelectionChange items st = Some (None, []))"
proof -
  let ?selected = "filter (\<lambda>item. overlaps (getRotatedBoundingBox item) rect) items"
  have same: "filter (\<lambda>item. isItemInSelection item rect) items = ?selected"
    by (simp add: isItemInSelection_overlaps)
  have nonempty: "?selected \<noteq> []
      \<longleftrightarrow> (\<exists>item \<in> set items. overlaps (getRotatedBoundingBox item) rect)"
    by (simp add: filter_empty_conv)
  show ?thesis
  proof (cases "(\<exists>item \<in> set items. overlaps (getRotatedBoundingBox item) rect)
                \<and> box_width rect > 5 \<and> box_height rect > 5")
    case True
    with nonempty have "map getRotatedBoundingBox ?selected \<noteq> []" by simp
    from encompassingRect_min_max [OF this] True nonempty assms show ?thesis
      by (simp add: handleMouseUp_onSelectionChange_def same Let_def o_def)
  next
    case False
    with nonempty assms show ?thesis
      by (auto simp: handleMouseUp_onSelectionChange_def same Let_def)
  qed
qed

lemma upright_box:
  "getRotatedBoundingBox (Image (picture name x y 100 100 0))
     = \<lparr>box_x = x, box_y = y, box_width = 100, box_height = 100\<rparr>"
  by (simp add: getRotatedBoundingBox_def getBoundingBox_def getCenter_def
      Math_min_def Math_max_def Let_def picture_def)

lemma turned_banner_box:
  "getRotatedBoundingBox (Image (picture ''banner'' 200 0 100 20 90))
     = \<lparr>box_x = 240, box_y = - 40, box_width = 20, box_height = 100\<rparr>"
  by (simp add: getRotatedBoundingBox_def getBoundingBox_def getCenter_def rotatePoint_def
      Math_min_def Math_max_def Let_def picture_def)

theorem marquee_release_selection_witness:
  "interactionMode (selecting \<lparr>box_x = 60, box_y = 60, box_width = 3, box_height = 3\<rparr>)
     = Mode_selecting
   \<and> transientSelectionRect (selecting \<lparr>box_x = 60, box_y = 60, box_width = 3, box_height = 3\<rparr>)
     = Some \<lparr>box_x = 60, box_y = 60, box_width = 3, box_height = 3\<rparr>
   \<and> filter (\<lambda>item. overlaps (getRotatedBoundingBox item)
                \<lparr>box_x = 60, box_y = 60, box_width = 3, box_height = 3\<rparr>)
        [Image (picture ''a'' 0 0 100 100 0), Image (picture ''b'' 50 50 100 100 0),
         Image (picture ''banner'' 200 0 100 20 90), Image (picture ''far'' 1000 1000 100 100 0)]
     = [Image (picture ''a'' 0 0 100 100 0), Image (picture ''b'' 50 50 100 100 0)]
   \<and> handleMouseUp_onSelectionChange
        [Image (picture ''a'' 0 0 100 100 0), Image (picture ''b'' 50 50 100 100 0),
         Image (picture ''banner'' 200 0 100 20 90), Image (picture ''far'' 1000 1000 100 100 0)]
        (selecting \<lparr>box_x = 60, box_y = 60, box_width = 3, box_height = 3\<rparr>)
     = Some (None, [])
   \<and> handleMouseUp_onSelectionChange
        [Image (picture ''a'' 0 0 100 100 0), Image (picture ''b'' 50 50 100 100 0),
         Image (picture ''banner'' 200 0 100 20 90), Image (picture ''far'' 1000 1000 100 100 0)]
        (selecting \<lparr>box_x = 40, box_y = 40, box_width = 30, box_height = 30\<rparr>)
     = Some (Some \<lparr>box_x = 0, box_y = 0, box_width = 150, box_height = 150\<rparr>,
             [Image (picture ''a'' 0 0 100 100 0), Image (picture ''b'' 50 50 100 100 0)])
   \<and> \<not> overlaps (getBoundingBox (Image (picture ''banner'' 200 0 100 20 90)))
          \<lparr>box_x = 230, box_y = 30, box_width = 20, box_height = 20\<rparr>
   \<and> map_option snd (handleMouseUp_onSelectionChange
        [Image (picture ''a'' 0 0 100 100 0), Image (picture ''b'' 50 50 100 100 0),
         Image (picture ''banner'' 200 0 100 20 90), Image (picture ''far'' 1000 1000 100 100 0)]
        (selecting \<lparr>box_x = 230, box_y = 30, box_width = 20, box_height = 20\<rparr>))
     = Some [Image (picture ''banner'' 200 0 100 20 90)]"
proof -
  let ?items = "[Image (picture ''a'' 0 0 100 100 0), Image (picture ''b'' 50 50 100 100 0),
         Image (picture ''banner'' 200 0 100 20 90), Image (picture ''far'' 1000 1000 100 100 0)]"
  let ?small = "\<lparr>box_x = 60, box_y = 60, box_width = 3, box_height = 3\<rparr>"
  let ?large = "\<lparr>box_x = 40, box_y = 40, box_width = 30, box_height = 30\<rparr>"
  let ?side = "\<lparr>box_x = 230, box_y = 30, box_width = 20, box_height = 20\<rparr>"
  have h1: "interactionMode (selecting ?small) = Mode_selecting"
    by (simp add: selecting_def idle_def)
  have h2: "transientSelectionRect (selecting ?small) = Some ?small"
    by (simp add: selecting_def idle_def)
  have both: "filter (\<lambda>item. overlaps (getRotatedBoundingBox item) ?small) ?items
      = [Image (picture ''a'' 0 0 100 100 0), Image (picture ''b'' 50 50 100 100 0)]"
    by (simp add: overlaps_def upright_box turned_banner_box)
  have cleared: "handleMouseUp_onSelectionChange ?items (selecting ?small) = Some (None, [])"
    using marquee_release_selection [OF h1 h2, of ?items]
    by (simp add: Let_def)
  have union: "handleMouseUp_onSelectionChange ?items (selecting ?large)
      = Some (Some \<lparr>box_x = 0, box_y = 0, box_width = 150, box_height = 150\<rparr>,
              [Image (picture ''a'' 0 0 100 100 0), Image (picture ''b'' 50 50 100 100 0)])"
    by (simp add: handleMouseUp_onSelectionChange_def selecting_def idle_def
        isItemInSelection_def upright_box turned_banner_box Math_min_def Math_max_def Let_def)
  have unturned: "\<not> overlaps (getBoundingBox (Image (picture ''banner'' 200 0 100 20 90))) ?side"
    by (simp add: overlaps_def getBoundingBox_def picture_def)
  have h3: "interactionMode (selecting ?side) = Mode_selecting"
    "transientSelectionRect (selecting ?side) = Some ?side"
    by (simp_all add: selecting_def idle_def)
  have only: "filter (\<lambda>item. overlaps (getRotatedBoundingBox item) ?side) ?items
      = [Image (picture ''banner'' 200 0 100 20 90)]"
    by (simp add: overlaps_def upright_box turned_banner_box)
  have "\<exists>item \<in> set ?items. overlaps (getRotatedBoundingBox item) ?side"
    by (simp add: overlaps_def upright_box turned_banner_box)
  then have turned: "map_option snd (handleMouseUp_onSelectionChange ?items (selecting ?side))
      = Some [Image (picture ''banner'' 200 0 100 20 90)]"
    using marquee_release_selection [OF h3, of ?items] only
    by (auto simp: Let_def)
  from h1 h2 both cleared union unturned turned show ?thesis
    by blast
qed

subsection \<open>Resizing\<close>

text \<open>
  C3: for a single image item at \<open>x = 0\<close>, \<open>y = 0\<close>, 100 wide and 100 high with rotation
  0, pressing the \<open>se\<close> handle fixes the opposite corner \<open>(0, 0)\<close>, and moving the pointer
  to the canvas point \<open>(150, 150)\<close> without the aspect-lock modifier makes the handler
  call \<open>setItems\<close> with an updater that turns the item into one with \<open>x = 0\<close>, \<open>y = 0\<close>,
  width 150 and height 150.
\<close>

theorem resize_se_handle_scenario:
  assumes "image_x i = 0" and "image_y i = 0"
    and "image_width i = 100" and "image_height i = 100" and "image_rotation i = 0"
    and "\<not> expansion_isActive props"
    and "getCanvasPoint props e = \<lparr>point_x = 150, point_y = 150\<rparr>"
    and "\<not> shiftKey e"
  shows "\<exists>st1 st2 c.
           handleInteractionStart props e0 Handle_se (Inl (Image i)) st0 = Inr st1
         \<and> originalItemState st1 = Some (Original_resizing (Image i)
               \<lparr>box_x = 0, box_y = 0, box_width = 100, box_height = 100\<rparr>
               \<lparr>point_x = 50, point_y = 50\<rparr> \<lparr>point_x = 0, point_y = 0\<rparr>)
         \<and> handleMouseMove props e st1 = Returns st2 (Some c)
         \<and> applySetItems (Some c) [Image i]
             = [Image (i\<lparr>image_x := 0, image_y := 0,
                         image_width := 150, image_height := 150\<rparr>)]"
  using assms
  by (simp add: handleInteractionStart_def handleMouseMove_def Let_def handle_includes_def
      getBoundingBox_def getCenter_def resizeItem_def)

theorem resize_se_handle_scenario_witness:
  "image_x (picture ''a'' 0 0 100 100 0) = 0 \<and> image_y (picture ''a'' 0 0 100 100 0) = 0
   \<and> image_width (picture ''a'' 0 0 100 100 0) = 100
   \<and> image_height (picture ''a'' 0 0 100 100 0) = 100
   \<and> image_rotation (picture ''a'' 0 0 100 100 0) = 0
   \<and> \<not> expansion_isActive plain_view
   \<and> getCanvasPoint plain_view (pointer 150 150) = \<lparr>point_x = 150, point_y = 150\<rparr>
   \<and> \<not> shiftKey (pointer 150 150)
   \<and> resize_gesture plain_view (pointer 100 100) Handle_se
        (Image (picture ''a'' 0 0 100 100 0)) [pointer 150 150]
       = Some [Image (picture ''a'' 0 0 150 150 0)]"
proof -
  let ?i = "picture ''a'' 0 0 100 100 0"
  have h: "image_x ?i = 0" "image_y ?i = 0" "image_width ?i = 100" "image_height ?i = 100"
    "image_rotation ?i = 0"
    by (simp_all add: picture_def)
  have v: "\<not> expansion_isActive plain_view"
    "getCanvasPoint plain_view (pointer 150 150) = \<lparr>point_x = 150, point_y = 150\<rparr>"
    "\<not> shiftKey (pointer 150 150)"
    by (simp_all add: plain_view_def pointer_def getCanvasPoint_def)
  from resize_se_handle_scenario [OF h v, of "pointer 100 100" idle]
  obtain st1 st2 c where
    start: "handleInteractionStart plain_view (pointer 100 100) Handle_se (Inl (Image ?i)) idle
              = Inr st1"
    and move: "handleMouseMove plain_view (pointer 150 150) st1 = Returns st2 (Some c)"
    and items: "applySetItems (Some c) [Image ?i]
              = [Image (?i\<lparr>image_x := 0, image_y := 0,
                           image_width := 150, image_height := 150\<rparr>)]"
    by blast
  have "?i\<lparr>image_x := 0, image_y := 0, image_width := 150, image_height := 150\<rparr>
          = picture ''a'' 0 0 150 150 0"
    by (simp add: picture_def)
  with start move items
  have "resize_gesture plain_view (pointer 100 100) Handle_se (Image ?i) [pointer 150 150]
          = Some [Image (picture ''a'' 0 0 150 150 0)]"
    by (simp add: resize_gesture_def)
  with h v show ?thesis
    by blast
qed

text \<open>
  What a resizing step writes: when \<open>handleMouseMove\<close> calls \<open>setItems\<close>, the updater maps
  \<open>resizeItem\<close> with a new width and a new height of at least 10, and otherwise the item
  collection is left as it is. An image, text or video item so resized has that width
  and height.
\<close>

lemma handleMouseMove_updater:
  assumes "handleMouseMove props e st = Returns st' (Some c)"
  shows "\<exists>currentItem' origBox origCenter newCenter newX newY newWidth newHeight.
           updater c = map (resizeItem currentItem' origBox origCenter newCenter newX newY
                              newWidth newHeight)
         \<and> 10 \<le> newWidth \<and> 10 \<le> newHeight"
  using assms
  unfolding handleMouseMove_def Let_def
  by (auto split: if_splits option.splits OriginalItemState.splits prod.splits
      simp: not_less intro!: exI)

lemma resizeItem_minimum:
  assumes "10 \<le> newWidth" and "10 \<le> newHeight"
    and "10 \<le> box_width (getBoundingBox item)" and "10 \<le> box_height (getBoundingBox item)"
    and "\<forall>d. item \<noteq> Drawing d"
  shows "10 \<le> box_width (getBoundingBox
            (resizeItem currentItem' origBox origCenter newCenter newX newY newWidth newHeight item))
       \<and> 10 \<le> box_height (getBoundingBox
            (resizeItem currentItem' origBox origCenter newCenter newX newY newWidth newHeight item))"
  using assms by (cases item) (auto simp: resizeItem_def getBoundingBox_def)

lemma stroke_box:
  "getBoundingBox (Drawing stroke)
     = \<lparr>box_x = - 1, box_y = - 1, box_width = 100, box_height = 100\<rparr>"
  by (simp add: getBoundingBox_def stroke_def Math_min_def Math_max_def Let_def)

lemma stroke_start:
  "handleInteractionStart plain_view (pointer 99 99) Handle_se (Inl (Drawing stroke)) idle
     = Inr (idle\<lparr>gestureDidCommit := False,
                  startPoint := Some \<lparr>point_x = 99, point_y = 99\<rparr>,
                  activeHandle := Some Handle_se, currentItem := Some (Drawing stroke),
                  interactionMode := Mode_resizing,
                  originalItemState := Some (Original_resizing (Drawing stroke)
                     \<lparr>box_x = - 1, box_y = - 1, box_width = 100, box_height = 100\<rparr>
                     \<lparr>point_x = 49, point_y = 49\<rparr> \<lparr>point_x = - 1, point_y = - 1\<rparr>)\<rparr>)"
  by (simp add: handleInteractionStart_def stroke_box Let_def handle_includes_def getCenter_def
      plain_view_def pointer_def idle_def) (simp add: stroke_def)

lemma stroke_resized:
  "resize_gesture plain_view (pointer 99 99) Handle_se (Drawing stroke)
     [pointer 9 9, pointer 19 19]
     = Some [Drawing (stroke\<lparr>drawing_points :=
          [\<lparr>point_x = - 49 / 50, point_y = - 49 / 50\<rparr>,
           \<lparr>point_x = 49 / 50, point_y = 49 / 50\<rparr>]\<rparr>)]"
  unfolding resize_gesture_def stroke_start
  by (simp add: handleMouseMove_def idle_def getCanvasPoint_def plain_view_def pointer_def
      Let_def resizeItem_def stroke_def)

text \<open>
  C9 fails for drawings. The resizing branch rescales the current points of a drawing,
  already rescaled by the earlier moves of the gesture, by the ratio of the new size to
  the size of the box captured when the gesture started, so the scale factors compound.
  The stroke from \<open>(0, 0)\<close> to \<open>(98, 98)\<close> of stroke width 2 has a box 100 wide and 100
  high and a rendered \<open>se\<close> handle. Dragging that handle to \<open>(9, 9)\<close> and then to
  \<open>(19, 19)\<close> computes the new sizes 10 and 20, neither below 10, and leaves a drawing
  whose box is 99/25 wide and 99/25 high.
\<close>

theorem drawing_resize_below_minimum:
  "box_width (getBoundingBox (Drawing stroke)) = 100
   \<and> box_height (getBoundingBox (Drawing stroke)) = 100
   \<and> Handle_se \<in> set (ControlBox (getBoundingBox (Drawing stroke)) False)
   \<and> map_option (map (\<lambda>item. (box_width (getBoundingBox item), box_height (getBoundingBox item))))
        (resize_gesture plain_view (pointer 99 99) Handle_se (Drawing stroke)
           [pointer 9 9, pointer 19 19])
       = Some [(99 / 25, 99 / 25)]
   \<and> (99 / 25 :: real) < 10"
  unfolding stroke_resized
  by (simp add: stroke_box ControlBox_def)
    (simp add: getBoundingBox_def stroke_def Math_min_def Math_max_def Let_def)

end
